theory Spec2Isabelle
  imports Main
begin

section \<open>Outcomes of fallible code\<close>

text \<open>
  A Go function of the server either returns a value, returns a non-nil \<open>error\<close>, or
  panics (an index or a slice bound out of range, a negative length given to \<open>make\<close>).
  An unrecovered panic ends the whole process, so it is kept apart from an error return.
  The error values are the ones the codec can produce: the two end-of-stream
  errors of package \<open>io\<close>, the two errors of \<open>strconv.Atoi\<close>, the codec's own
  "invalid RESP data type byte", and the three wrappers of \<open>fmt.Errorf\<close>.
  A library function that cannot panic returns \<open>error + 'a\<close>, with \<open>Inl\<close> for the error;
  a function of the server that can panic returns \<open>'a result\<close>.
\<close>

datatype error =
    EOF
  | ErrUnexpectedEOF
  | ErrSyntax
  | ErrRange
  | InvalidDataTypeByte char
  | FailedToReadLength error
  | FailedToParseLength error
  | FailedToReadContents error

datatype 'a result = Ok 'a | Error error | Panic

section \<open>Integers and their decimal text (package strconv)\<close>

text \<open>Go's \<open>int\<close> is 64 bits wide on the platforms the server is built for; arithmetic wraps.\<close>

definition wrap64 :: "int \<Rightarrow> int" where
  "wrap64 i = (i + 2 ^ 63) mod 2 ^ 64 - 2 ^ 63"

definition is_digit :: "char \<Rightarrow> bool" where
  "is_digit c = (48 \<le> (of_char c :: int) \<and> (of_char c :: int) \<le> 57)"

definition digit_val :: "char \<Rightarrow> int" where
  "digit_val c = of_char c - 48"

definition digit_char :: "int \<Rightarrow> char" where
  "digit_char d = char_of (48 + d)"

text \<open>
  \<open>strconv.ParseUint\<close> in base 10: the digits are read from the left; a byte that is not a
  digit is a syntax error, a value that leaves 64 bits is a range error, whichever comes
  first.
\<close>

fun ParseUint :: "int \<Rightarrow> string \<Rightarrow> error + int" where
  "ParseUint n [] = Inr n"
| "ParseUint n (c # cs) =
     (if \<not> is_digit c then Inl ErrSyntax
      else if 10 * n + digit_val c \<ge> 2 ^ 64 then Inl ErrRange
      else ParseUint (10 * n + digit_val c) cs)"

text \<open>
  \<open>strconv.Atoi\<close>: an optional sign, then at least one digit; the value must fit the
  signed 64-bit range.
\<close>

definition Atoi :: "string \<Rightarrow> error + int" where
  "Atoi s =
     (case s of
        [] \<Rightarrow> Inl ErrSyntax
      | c # cs \<Rightarrow>
          (let neg = (c = CHR ''-'');
               ds = (if c = CHR ''-'' \<or> c = CHR ''+'' then cs else s)
           in if ds = [] then Inl ErrSyntax
              else (case ParseUint 0 ds of
                      Inl err \<Rightarrow> Inl err
                    | Inr un \<Rightarrow>
                        if neg then (if un > 2 ^ 63 then Inl ErrRange else Inr (- un))
                        else (if un \<ge> 2 ^ 63 then Inl ErrRange else Inr un))))"

text \<open>
  \<open>strconv.Itoa\<close>: the decimal digits of the magnitude, most significant first, after a
  minus sign for a negative number.
\<close>

function digits :: "int \<Rightarrow> string" where
  "digits n = (if n < 10 then [digit_char n] else digits (n div 10) @ [digit_char (n mod 10)])"
  by pat_completeness auto
termination
  by (relation "measure nat") auto

declare digits.simps [simp del]

definition Itoa :: "int \<Rightarrow> string" where
  "Itoa i = (if i < 0 then CHR ''-'' # digits (- i) else digits i)"

section \<open>The byte stream (package bufio, package io)\<close>

text \<open>
  A connection's input is the list of bytes that arrive before the stream ends. Reading
  returns the bytes read together with the rest of the stream.
\<close>

abbreviation CR :: char where "CR \<equiv> CHR 0x0D"
abbreviation LF :: char where "LF \<equiv> CHR 0x0A"

definition CRLF :: string where
  "CRLF = [CR, LF]"

text \<open>
  \<open>bufio.Reader.ReadBytes(delim)\<close>: the bytes up to and including the first \<open>delim\<close>;
  \<open>None\<close> when the stream ends before a delimiter is found (the call then returns
  \<open>io.EOF\<close>).
\<close>

fun ReadBytes :: "char \<Rightarrow> string \<Rightarrow> (string \<times> string) option" where
  "ReadBytes delim [] = None"
| "ReadBytes delim (c # cs) =
     (if c = delim then Some ([c], cs)
      else (case ReadBytes delim cs of
              None \<Rightarrow> None
            | Some (b, rest) \<Rightarrow> Some (c # b, rest)))"

lemma ReadBytes_shorter:
  "ReadBytes delim s = Some (b, rest) \<Longrightarrow> length rest < length s"
  by (induction s arbitrary: b rest) (auto split: if_splits option.splits)

text \<open>
  \<open>io.ReadFull(r, buf)\<close> with \<open>len(buf) = n\<close>: exactly \<open>n\<close> bytes, else \<open>io.EOF\<close> when
  no byte was read and \<open>io.ErrUnexpectedEOF\<close> when some were.
\<close>

definition ReadFull :: "string \<Rightarrow> int \<Rightarrow> error + string \<times> string" where
  "ReadFull byteStream n =
     (if n \<le> int (length byteStream) then Inr (take (nat n) byteStream, drop (nat n) byteStream)
      else if byteStream = [] then Inl EOF
      else Inl ErrUnexpectedEOF)"

section \<open>The protocol codec (redis\_protocol.go)\<close>

text \<open>
  \<open>type Value struct { typ Type; bytes []byte; array []Value }\<close>, where \<open>Type\<close> is the
  marker byte: the only constants are \<open>SimpleString = '+'\<close>, \<open>BulkString = '$'\<close> and
  \<open>Array = '*'\<close>.
\<close>

datatype Value = Value (typ': char) (bytes: string) (array: "Value list")

abbreviation SimpleString :: char where "SimpleString \<equiv> CHR ''+''"
abbreviation BulkString :: char where "BulkString \<equiv> CHR ''$''"
abbreviation Array :: char where "Array \<equiv> CHR ''*''"

text \<open>
  \<open>readUntilCRLF\<close>: lines are appended to \<open>readBytes\<close> until the byte before the last
  line feed is a carriage return; the two terminator bytes are cut off.
\<close>

function readUntilCRLF_loop :: "string \<Rightarrow> string \<Rightarrow> error + string \<times> string" where
  "readUntilCRLF_loop readBytes byteStream =
     (case ReadBytes LF byteStream of
        None \<Rightarrow> Inl EOF
      | Some (b, rest) \<Rightarrow>
          (let readBytes' = readBytes @ b
           in if length readBytes' \<ge> 2 \<and> readBytes' ! (length readBytes' - 2) = CR
              then Inr (take (length readBytes' - 2) readBytes', rest)
              else readUntilCRLF_loop readBytes' rest))"
  by pat_completeness auto
termination
  by (relation "measure (\<lambda>(readBytes, byteStream). length byteStream)")
     (auto dest: ReadBytes_shorter)

declare readUntilCRLF_loop.simps [simp del]

definition readUntilCRLF :: "string \<Rightarrow> error + string \<times> string" where
  "readUntilCRLF byteStream = readUntilCRLF_loop [] byteStream"

definition decodeSimpleString :: "string \<Rightarrow> (Value \<times> string) result" where
  "decodeSimpleString byteStream =
     (case readUntilCRLF byteStream of
        Inl err \<Rightarrow> Error err
      | Inr (readBytes, rest) \<Rightarrow> Ok (Value SimpleString readBytes [], rest))"

text \<open>
  \<open>decodeBulkString\<close>. \<open>make([]byte, count+2)\<close> panics when \<open>count+2\<close> is negative, and
  the slice expression \<open>readBytes[:count]\<close> panics when \<open>count\<close> is negative; the source
  checks neither. (The memory a huge \<open>count\<close> would need is not modelled.)
\<close>

definition decodeBulkString :: "string \<Rightarrow> (Value \<times> string) result" where
  "decodeBulkString byteStream =
     (case readUntilCRLF byteStream of
        Inl err \<Rightarrow> Error (FailedToReadLength err)
      | Inr (readBytesForCount, rest) \<Rightarrow>
          (case Atoi readBytesForCount of
             Inl err \<Rightarrow> Error (FailedToParseLength err)
           | Inr count \<Rightarrow>
               (let n = wrap64 (count + 2)
                in if n < 0 then Panic
                   else (case ReadFull rest n of
                           Inl err \<Rightarrow> Error (FailedToReadContents err)
                         | Inr (readBytes, rest') \<Rightarrow>
                             if count < 0 then Panic
                             else Ok (Value BulkString (take (nat count) readBytes) [], rest')))))"

text \<open>
  \<open>DecodeRESP\<close> and \<open>decodeArray\<close> call each other. The first argument bounds the depth
  of nested arrays still allowed; \<open>None\<close> means the bound was too small. The loop of
  \<open>decodeArray\<close> runs for \<open>i = 1 .. count\<close>, that is \<open>nat count\<close> times.
\<close>

fun DecodeRESP :: "nat \<Rightarrow> string \<Rightarrow> (Value \<times> string) result option"
  and decodeArray :: "nat \<Rightarrow> string \<Rightarrow> (Value \<times> string) result option"
  and decodeArray_loop :: "nat \<Rightarrow> nat \<Rightarrow> Value list \<Rightarrow> string \<Rightarrow> (Value \<times> string) result option"
where
  "DecodeRESP 0 byteStream = None"
| "DecodeRESP (Suc fuel) byteStream =
     (case byteStream of
        [] \<Rightarrow> Some (Error EOF)
      | dataTypeByte # s \<Rightarrow>
          if dataTypeByte = CHR ''+'' then Some (decodeSimpleString s)
          else if dataTypeByte = CHR ''$'' then Some (decodeBulkString s)
          else if dataTypeByte = CHR ''*'' then decodeArray fuel s
          else Some (Error (InvalidDataTypeByte dataTypeByte)))"
| "decodeArray fuel byteStream =
     (case readUntilCRLF byteStream of
        Inl err \<Rightarrow> Some (Error (FailedToReadLength err))
      | Inr (readBytesForCount, rest) \<Rightarrow>
          (case Atoi readBytesForCount of
             Inl err \<Rightarrow> Some (Error (FailedToParseLength err))
           | Inr count \<Rightarrow> decodeArray_loop fuel (nat count) [] rest))"
| "decodeArray_loop fuel 0 arr byteStream = Some (Ok (Value Array [] arr, byteStream))"
| "decodeArray_loop fuel (Suc k) arr byteStream =
     (case DecodeRESP fuel byteStream of
        None \<Rightarrow> None
      | Some (Error err) \<Rightarrow> Some (Error err)
      | Some Panic \<Rightarrow> Some Panic
      | Some (Ok (v, rest)) \<Rightarrow> decodeArray_loop fuel k (arr @ [v]) rest)"

text \<open>The reply encoders.\<close>

definition returnError :: "string \<Rightarrow> string" where
  "returnError s = ''-ERR '' @ s @ CRLF"

definition returnSimpleString :: "string \<Rightarrow> string" where
  "returnSimpleString s = ''+'' @ s @ CRLF"

definition returnNullBulkString :: string where
  "returnNullBulkString = ''$-1'' @ CRLF"

definition returnBulkString :: "string \<Rightarrow> string" where
  "returnBulkString s = ''$'' @ Itoa (int (length s)) @ CRLF @ s @ CRLF"

definition returnInteger :: "int \<Rightarrow> string" where
  "returnInteger i = '':'' @ Itoa i @ CRLF"

definition returnArray :: "string list \<Rightarrow> string" where
  "returnArray a =
     foldl (\<lambda>s v. s @ (if v = [] then returnNullBulkString else returnBulkString v))
       (''*'' @ Itoa (int (length a)) @ CRLF) a"

text \<open>A text holds the line terminator when a carriage return is directly followed by a line feed.\<close>

fun contains_CRLF :: "string \<Rightarrow> bool" where
  "contains_CRLF (a # b # cs) = ((a = CR \<and> b = LF) \<or> contains_CRLF (b # cs))"
| "contains_CRLF _ = False"

section \<open>Time (package time)\<close>

text \<open>
  An instant is a number of nanoseconds counted from the zero \<open>time.Time{}\<close>; a
  \<open>time.Duration\<close> is a signed 64-bit count of nanoseconds. \<open>Time.Sub\<close> saturates at the
  bounds of \<open>Duration\<close>; a product of durations wraps. \<open>Duration.Seconds\<close> followed by the
  conversion to \<open>int\<close> drops the fraction of a second, towards zero; the model takes the
  exact quotient where Go goes through a \<open>float64\<close>.
\<close>

type_synonym time = int




definition Millisecond :: int where
  "Millisecond = 1000000"


definition After :: "time \<Rightarrow> time \<Rightarrow> bool" where
  "After t u = (u < t)"




section \<open>The keyspace engine (database.go)\<close>

text \<open>
  \<open>type Database struct\<close>: the index, the value map and the expiry map. The stop channel
  and the mutex serve the sweeper and the locking discipline and carry no data. Every
  operation is modelled as one atomic step taken at the clock reading \<open>now\<close>: each
  \<open>time.Now()\<close> inside one call returns that instant. An operation with a pointer
  receiver returns the database it leaves behind. The sweeper, which purges expired
  keys once a second, is not part of the model: what a caller sees of an expired key is
  decided by the lazy check in \<open>Get\<close>.
\<close>

record Database =
  id' :: int
  StringKeys :: "string \<rightharpoonup> string"
  ExpireKeys :: "string \<rightharpoonup> time"

definition NewDatabase :: "int \<Rightarrow> Database" where
  "NewDatabase i = \<lparr>id' = i, StringKeys = Map.empty, ExpireKeys = Map.empty\<rparr>"

definition checkAndRemoveExpiredKey :: "time \<Rightarrow> Database \<Rightarrow> string \<Rightarrow> bool \<times> Database" where
  "checkAndRemoveExpiredKey now db key =
     (case ExpireKeys db key of
        None \<Rightarrow> (False, db)
      | Some expire \<Rightarrow>
          if After now expire
          then (True, db\<lparr>StringKeys := (StringKeys db)(key := None),
                         ExpireKeys := (ExpireKeys db)(key := None)\<rparr>)
          else (False, db))"


definition Get :: "time \<Rightarrow> Database \<Rightarrow> string \<Rightarrow> string \<times> Database" where
  "Get now db key =
     (case StringKeys db key of
        None \<Rightarrow> ([], db)
      | Some storage \<Rightarrow>
          (case checkAndRemoveExpiredKey now db key of
             (True, db1) \<Rightarrow> ([], db1)
           | (False, db1) \<Rightarrow> (storage, db1)))"

definition Set :: "Database \<Rightarrow> string \<Rightarrow> string \<Rightarrow> Database" where
  "Set db key v = db\<lparr>StringKeys := (StringKeys db)(key \<mapsto> v)\<rparr>"



definition Setpx :: "time \<Rightarrow> Database \<Rightarrow> string \<Rightarrow> int \<Rightarrow> string \<Rightarrow> Database" where
  "Setpx now db key milliseconds v =
     (let db1 = Set db key v
      in db1\<lparr>ExpireKeys := (ExpireKeys db1)(key \<mapsto> now + wrap64 (Millisecond * milliseconds))\<rparr>)"




text \<open>
  The four counters share one shape: an absent (or empty) value starts the counter, a
  value that \<open>strconv.Atoi\<close> rejects makes the function return 0, as its doc comment says
  ("If value of the key is not an integer, it returns 0").
\<close>

definition Incr :: "time \<Rightarrow> Database \<Rightarrow> string \<Rightarrow> int \<times> Database" where
  "Incr now db key =
     (case Get now db key of
        (storage, db1) \<Rightarrow>
          if storage = [] then (1, Set db1 key ''1'')
          else (case checkAndRemoveExpiredKey now db1 key of
                  (True, db2) \<Rightarrow> (0, db2)
                | (False, db2) \<Rightarrow>
                    (case Atoi storage of
                       Inl err \<Rightarrow> (0, db2)
                     | Inr v \<Rightarrow> (wrap64 (v + 1), Set db2 key (Itoa (wrap64 (v + 1)))))))"

definition IncrBy :: "time \<Rightarrow> Database \<Rightarrow> string \<Rightarrow> int \<Rightarrow> int \<times> Database" where
  "IncrBy now db key increment =
     (case Get now db key of
        (storage, db1) \<Rightarrow>
          if storage = [] then (increment, Set db1 key (Itoa increment))
          else (case checkAndRemoveExpiredKey now db1 key of
                  (True, db2) \<Rightarrow> (0, db2)
                | (False, db2) \<Rightarrow>
                    (case Atoi storage of
                       Inl err \<Rightarrow> (0, db2)
                     | Inr v \<Rightarrow> (wrap64 (v + increment), Set db2 key (Itoa (wrap64 (v + increment)))))))"

definition Decr :: "time \<Rightarrow> Database \<Rightarrow> string \<Rightarrow> int \<times> Database" where
  "Decr now db key =
     (case Get now db key of
        (storage, db1) \<Rightarrow>
          if storage = [] then (- 1, Set db1 key ''-1'')
          else (case checkAndRemoveExpiredKey now db1 key of
                  (True, db2) \<Rightarrow> (0, db2)
                | (False, db2) \<Rightarrow>
                    (case Atoi storage of
                       Inl err \<Rightarrow> (0, db2)
                     | Inr v \<Rightarrow> (wrap64 (v - 1), Set db2 key (Itoa (wrap64 (v - 1)))))))"

definition DecrBy :: "time \<Rightarrow> Database \<Rightarrow> string \<Rightarrow> int \<Rightarrow> int \<times> Database" where
  "DecrBy now db key decrement =
     (case Get now db key of
        (storage, db1) \<Rightarrow>
          if storage = [] then (wrap64 (- decrement), Set db1 key (Itoa (wrap64 (- decrement))))
          else (case checkAndRemoveExpiredKey now db1 key of
                  (True, db2) \<Rightarrow> (0, db2)
                | (False, db2) \<Rightarrow>
                    (case Atoi storage of
                       Inl err \<Rightarrow> (0, db2)
                     | Inr v \<Rightarrow> (wrap64 (v - decrement), Set db2 key (Itoa (wrap64 (v - decrement)))))))"






section \<open>Snapshots (database.go with package os and package encoding/gob)\<close>

text \<open>
  The file system is what \<open>Save\<close> and \<open>Load\<close> see of it: the files by name, the names
  that \<open>os.Open\<close> and \<open>os.Create\<close> refuse, and the names on which a write fails after the
  file was created. A file either holds the gob image of the two exported maps of a
  \<open>Database\<close> or is something the decoder rejects (the empty file that \<open>os.Create\<close> leaves
  is such a file).

  \<open>gob\<close> decodes into the value it is given: \<open>Load\<close> passes the live database, and for a
  map that is not nil the decoder stores each decoded entry into the existing map. The
  unexported fields (index, channel, mutex) are neither written nor read. The decoder
  reads a whole message before it stores a value, so a file that cannot be read, is cut
  short or is no gob stream is rejected with the database untouched; a well-framed
  message that is damaged inside is outside the model.
\<close>

datatype dump_file = Image "string \<rightharpoonup> string" "string \<rightharpoonup> time" | Garbage

datatype io_error = ErrNotExist | ErrPermission | ErrWrite | ErrDecode

record filesystem =
  files :: "string \<rightharpoonup> dump_file"
  denied :: "string \<Rightarrow> bool"
  failing :: "string \<Rightarrow> bool"

definition os_Open :: "filesystem \<Rightarrow> string \<Rightarrow> io_error + dump_file" where
  "os_Open fs name =
     (if denied fs name then Inl ErrPermission
      else (case files fs name of None \<Rightarrow> Inl ErrNotExist | Some f \<Rightarrow> Inr f))"

definition os_Create :: "filesystem \<Rightarrow> string \<Rightarrow> io_error + filesystem" where
  "os_Create fs name =
     (if denied fs name then Inl ErrPermission
      else Inr (fs\<lparr>files := (files fs)(name \<mapsto> Garbage)\<rparr>))"

definition gob_Encode :: "filesystem \<Rightarrow> string \<Rightarrow> Database \<Rightarrow> io_error + filesystem" where
  "gob_Encode fs name db =
     (if failing fs name then Inl ErrWrite
      else Inr (fs\<lparr>files := (files fs)(name \<mapsto> Image (StringKeys db) (ExpireKeys db))\<rparr>))"

definition gob_Decode :: "dump_file \<Rightarrow> Database \<Rightarrow> io_error + Database" where
  "gob_Decode f db =
     (case f of
        Garbage \<Rightarrow> Inl ErrDecode
      | Image strings expires \<Rightarrow>
          Inr (db\<lparr>StringKeys := StringKeys db ++ strings,
                   ExpireKeys := ExpireKeys db ++ expires\<rparr>))"

definition dump_name :: "Database \<Rightarrow> string" where
  "dump_name db = ''database_'' @ Itoa (id' db) @ ''_dump'' @ ''.db''"

text \<open>
  \<open>Save\<close> and \<open>Load\<close> return nothing: an error is printed by the logger and the function
  returns. \<open>Save\<close> leaves a file system behind, \<open>Load\<close> a database.
\<close>

definition Save :: "filesystem \<Rightarrow> Database \<Rightarrow> filesystem" where
  "Save fs db =
     (case os_Create fs (dump_name db) of
        Inl err \<Rightarrow> fs
      | Inr fs1 \<Rightarrow>
          (case gob_Encode fs1 (dump_name db) db of
             Inl err \<Rightarrow> fs1
           | Inr fs2 \<Rightarrow> fs2))"

definition Load :: "filesystem \<Rightarrow> Database \<Rightarrow> string \<Rightarrow> Database" where
  "Load fs db fileName =
     (let fileName' = (if fileName = [] then dump_name db else fileName)
      in case os_Open fs fileName' of
           Inl err \<Rightarrow> db
         | Inr f \<Rightarrow>
             (case gob_Decode f db of
                Inl err \<Rightarrow> db
              | Inr db1 \<Rightarrow> db1))"

section \<open>The server and its command handlers (server.go, commands.go)\<close>

text \<open>
  \<open>RedisServer\<close> holds the databases and the selected index; the handlers reach the
  selected database through the global \<open>redis\<close>. An index outside the slice would panic.
  A handler returns its reply and the server it leaves behind.
\<close>

record RedisServer =
  databases :: "Database list"
  selectedDB :: int

text \<open>
  \<open>RedisServer.Init\<close> with no file to load: sixteen fresh databases, the first one
  selected.
\<close>

definition Init :: RedisServer where
  "Init = \<lparr>databases = map (\<lambda>i. NewDatabase (int i)) [0..<16], selectedDB = 0\<rparr>"

definition selected :: "RedisServer \<Rightarrow> Database result" where
  "selected redis =
     (if 0 \<le> selectedDB redis \<and> selectedDB redis < int (length (databases redis))
      then Ok (databases redis ! nat (selectedDB redis))
      else Panic)"

definition store :: "RedisServer \<Rightarrow> Database \<Rightarrow> RedisServer" where
  "store redis db = redis\<lparr>databases := (databases redis)[nat (selectedDB redis) := db]\<rparr>"

definition checkNumberOfArguments :: "string list \<Rightarrow> int \<Rightarrow> bool" where
  "checkNumberOfArguments args expectedNumberOfArguments =
     (int (length args) \<ge> expectedNumberOfArguments)"

definition returnWrongNumberOfArgumentsError :: "string \<Rightarrow> string" where
  "returnWrongNumberOfArgumentsError command =
     returnError (''wrong number of arguments for '' @ [CHR 0x27] @ command @ [CHR 0x27] @ '' command'')"

text \<open>\<open>echoCommand\<close> reads \<open>args[0]\<close> with no check of the number of arguments.\<close>

definition echoCommand :: "string list \<Rightarrow> string result" where
  "echoCommand args = (case args of [] \<Rightarrow> Panic | a # _ \<Rightarrow> Ok (returnBulkString a))"

definition getCommand :: "time \<Rightarrow> string list \<Rightarrow> RedisServer \<Rightarrow> (string \<times> RedisServer) result" where
  "getCommand now args redis =
     (if \<not> checkNumberOfArguments args 1
      then Ok (returnWrongNumberOfArgumentsError ''GET'', redis)
      else (case selected redis of
              Panic \<Rightarrow> Panic
            | Error err \<Rightarrow> Error err
            | Ok db \<Rightarrow>
                (case Get now db (hd args) of
                   (v, db1) \<Rightarrow>
                     Ok (if v = [] then returnNullBulkString else returnBulkString v,
                         store redis db1))))"

definition incrCommand :: "time \<Rightarrow> string list \<Rightarrow> RedisServer \<Rightarrow> (string \<times> RedisServer) result" where
  "incrCommand now args redis =
     (if \<not> checkNumberOfArguments args 1
      then Ok (returnWrongNumberOfArgumentsError ''INCR'', redis)
      else (case selected redis of
              Panic \<Rightarrow> Panic
            | Error err \<Rightarrow> Error err
            | Ok db \<Rightarrow>
                (case Incr now db (hd args) of
                   (i, db1) \<Rightarrow> Ok (returnInteger i, store redis db1))))"

text \<open>
  \<open>saveCommand\<close> ignores its arguments. \<open>loadCommand\<close> asks for one argument, so its
  branch for no argument is never taken.
\<close>

definition saveCommand ::
  "string list \<Rightarrow> filesystem \<Rightarrow> RedisServer \<Rightarrow> (string \<times> filesystem \<times> RedisServer) result" where
  "saveCommand args fs redis =
     (case selected redis of
        Panic \<Rightarrow> Panic
      | Error err \<Rightarrow> Error err
      | Ok db \<Rightarrow> Ok (returnSimpleString ''OK'', Save fs db, redis))"

definition loadCommand ::
  "string list \<Rightarrow> filesystem \<Rightarrow> RedisServer \<Rightarrow> (string \<times> RedisServer) result" where
  "loadCommand args fs redis =
     (if \<not> checkNumberOfArguments args 1
      then Ok (returnWrongNumberOfArgumentsError ''LOAD'', redis)
      else (case selected redis of
              Panic \<Rightarrow> Panic
            | Error err \<Rightarrow> Error err
            | Ok db \<Rightarrow>
                (if length args > 0
                 then Ok (returnSimpleString ''OK'', store redis (Load fs db (hd args)))
                 else Ok (returnSimpleString ''OK'', store redis (Load fs db [])))))"

text \<open>Helpers for stating properties of the engine.\<close>

definition expired :: "time \<Rightarrow> Database \<Rightarrow> string \<Rightarrow> bool" where
  "expired now db key = (case ExpireKeys db key of None \<Rightarrow> False | Some expire \<Rightarrow> expire < now)"

definition present :: "time \<Rightarrow> Database \<Rightarrow> string \<Rightarrow> bool" where
  "present now db key =
     (case StringKeys db key of None \<Rightarrow> False | Some v \<Rightarrow> v \<noteq> [] \<and> \<not> expired now db key)"


text \<open>A file system with no file in it, on which nothing is refused and no write fails.\<close>

definition empty_disk :: filesystem where
  "empty_disk = \<lparr>files = Map.empty, denied = (\<lambda>name. False), failing = (\<lambda>name. False)\<rparr>"

text \<open>What lazy expiration does to one key: it leaves both maps.\<close>

definition purge :: "Database \<Rightarrow> string \<Rightarrow> Database" where
  "purge db key = db\<lparr>StringKeys := (StringKeys db)(key := None), ExpireKeys := (ExpireKeys db)(key := None)\<rparr>"



section \<open>Decimal text: \<open>Atoi\<close> inverts \<open>Itoa\<close>\<close>

lemma digit_char_is_digit: "0 \<le> d \<Longrightarrow> d < 10 \<Longrightarrow> is_digit (digit_char d)"
  by (simp add: is_digit_def digit_char_def)

lemma digit_val_digit_char: "0 \<le> d \<Longrightarrow> d < 10 \<Longrightarrow> digit_val (digit_char d) = d"
  by (simp add: digit_val_def digit_char_def)

lemma digits_nonempty: "digits n \<noteq> []"
  by (subst digits.simps) simp

lemma digits_all_digit: "0 \<le> n \<Longrightarrow> c \<in> set (digits n) \<Longrightarrow> is_digit c"
proof (induction n rule: digits.induct)
  case (1 n)
  show ?case
  proof (cases "n < 10")
    case True
    with "1.prems" show ?thesis
      by (subst (asm) digits.simps) (simp add: digit_char_is_digit)
  next
    case False
    from "1.prems"(2) have "c \<in> set (digits (n div 10)) \<or> c = digit_char (n mod 10)"
      using False by (subst (asm) digits.simps) auto
    then show ?thesis
    proof
      assume "c \<in> set (digits (n div 10))"
      with "1.IH" False "1.prems"(1) show ?thesis by simp
    next
      assume "c = digit_char (n mod 10)"
      then show ?thesis by (simp add: digit_char_is_digit)
    qed
  qed
qed

lemma ParseUint_append:
  "ParseUint a (xs @ ys) =
     (case ParseUint a xs of Inl err \<Rightarrow> Inl err | Inr b \<Rightarrow> ParseUint b ys)"
  by (induction xs arbitrary: a) auto

lemma ParseUint_digits: "0 \<le> n \<Longrightarrow> n < 2 ^ 64 \<Longrightarrow> ParseUint 0 (digits n) = Inr n"
proof (induction n rule: digits.induct)
  case (1 n)
  show ?case
  proof (cases "n < 10")
    case True
    with "1.prems" show ?thesis
      by (subst digits.simps) (simp add: digit_char_is_digit digit_val_digit_char)
  next
    case False
    have small: "n div 10 < 2 ^ 64" using "1.prems" by simp
    have ih: "ParseUint 0 (digits (n div 10)) = Inr (n div 10)"
      using "1.IH" False "1.prems"(1) small by simp
    have d: "is_digit (digit_char (n mod 10))" "digit_val (digit_char (n mod 10)) = n mod 10"
      by (simp_all add: digit_char_is_digit digit_val_digit_char)
    have "digits n = digits (n div 10) @ [digit_char (n mod 10)]"
      using False by (subst digits.simps) simp
    then show ?thesis
      using ih d "1.prems" by (simp add: ParseUint_append)
  qed
qed

lemma is_digit_not_sign: "is_digit c \<Longrightarrow> c \<noteq> CHR ''-'' \<and> c \<noteq> CHR ''+''"
  by (auto simp: is_digit_def)

lemma is_digit_not_CR_LF: "is_digit c \<Longrightarrow> c \<noteq> CR \<and> c \<noteq> LF"
  by (auto simp: is_digit_def)

lemma Atoi_digits: "0 \<le> n \<Longrightarrow> n < 2 ^ 63 \<Longrightarrow> Atoi (digits n) = Inr n"
proof -
  assume n: "0 \<le> n" "n < 2 ^ 63"
  obtain c cs where s: "digits n = c # cs"
    using digits_nonempty by (cases "digits n") auto
  have "is_digit c" using digits_all_digit [OF n(1), of c] s by simp
  then have c: "c \<noteq> CHR ''-''" "c \<noteq> CHR ''+''" using is_digit_not_sign by auto
  have "ParseUint 0 (c # cs) = Inr n" using ParseUint_digits [of n] n s by simp
  then show ?thesis using c n s by (simp add: Atoi_def)
qed

lemma Atoi_Itoa: "- (2 ^ 63) \<le> i \<Longrightarrow> i < 2 ^ 63 \<Longrightarrow> Atoi (Itoa i) = Inr i"
proof (cases "i < 0")
  case False
  assume "i < 2 ^ 63"
  with False show ?thesis by (simp add: Itoa_def Atoi_digits)
next
  case True
  assume lo: "- (2 ^ 63) \<le> i"
  have "ParseUint 0 (digits (- i)) = Inr (- i)"
    using True lo by (intro ParseUint_digits) auto
  then show ?thesis using True lo by (simp add: Itoa_def Atoi_def digits_nonempty)
qed

section \<open>Reading a terminated line\<close>

lemma ReadBytes_first:
  "delim \<notin> set s1 \<Longrightarrow> ReadBytes delim (s1 @ delim # r) = Some (s1 @ [delim], r)"
  by (induction s1) auto

lemma contains_CRLF_Cons: "contains_CRLF s \<Longrightarrow> contains_CRLF (x # s)"
  by (cases s) auto

lemma contains_CRLF_append_LF:
  "\<not> contains_CRLF (s1 @ LF # s2) \<Longrightarrow> \<not> contains_CRLF s2 \<and> (s1 \<noteq> [] \<longrightarrow> last s1 \<noteq> CR)"
proof (induction s1)
  case Nil
  then show ?case using contains_CRLF_Cons by auto
next
  case (Cons a s1)
  then have "\<not> contains_CRLF (s1 @ LF # s2)" using contains_CRLF_Cons by auto
  with Cons.IH have ih: "\<not> contains_CRLF s2" "s1 \<noteq> [] \<longrightarrow> last s1 \<noteq> CR" by auto
  show ?case
  proof (cases s1)
    case Nil
    with Cons.prems ih show ?thesis by auto
  next
    case (Cons b s1')
    with ih show ?thesis by auto
  qed
qed

lemma nth_before_last: "xs \<noteq> [] \<Longrightarrow> (xs @ [c]) ! (length (xs @ [c]) - 2) = last xs"
  by (simp add: nth_append last_conv_nth)

lemma no_LF_no_CRLF: "LF \<notin> set s \<Longrightarrow> \<not> contains_CRLF s"
  by (induction s rule: contains_CRLF.induct) auto

lemma readUntilCRLF_loop_terminated:
  "acc = [] \<or> last acc = LF \<Longrightarrow> \<not> contains_CRLF s \<Longrightarrow>
   readUntilCRLF_loop acc (s @ CR # LF # rest) = Inr (acc @ s, rest)"
proof (induction s arbitrary: acc rule: length_induct)
  case (1 s)
  show ?case
  proof (cases "LF \<in> set s")
    case False
    then have "ReadBytes LF (s @ CR # LF # rest) = Some ((s @ [CR]) @ [LF], rest)"
      using ReadBytes_first [of LF "s @ [CR]" rest] by simp
    then show ?thesis
      by (subst readUntilCRLF_loop.simps) (simp add: nth_append)
  next
    case True
    then obtain s1 s2 where s: "s = s1 @ LF # s2" "LF \<notin> set s1"
      by (meson split_list_first)
    have rb: "ReadBytes LF (s @ CR # LF # rest) = Some (s1 @ [LF], s2 @ CR # LF # rest)"
      using ReadBytes_first [OF s(2), of "s2 @ CR # LF # rest"] s(1) by simp
    from "1.prems"(2) s(1) have free: "\<not> contains_CRLF s2" "s1 \<noteq> [] \<longrightarrow> last s1 \<noteq> CR"
      using contains_CRLF_append_LF [of s1 s2] by auto
    have notyet: "\<not> (length (acc @ s1 @ [LF]) \<ge> 2 \<and> (acc @ s1 @ [LF]) ! (length (acc @ s1 @ [LF]) - 2) = CR)"
    proof (cases "acc @ s1 = []")
      case True
      then show ?thesis by simp
    next
      case False
      have "last (acc @ s1) \<noteq> CR"
        using False free(2) "1.prems"(1) by (cases "s1 = []") auto
      moreover have "(acc @ s1 @ [LF]) ! (length (acc @ s1 @ [LF]) - 2) = last (acc @ s1)"
        using nth_before_last [OF False, of LF] by simp
      ultimately show ?thesis by simp
    qed
    have "length s2 < length s" using s(1) by simp
    with "1.IH" free(1) have "readUntilCRLF_loop (acc @ s1 @ [LF]) (s2 @ CR # LF # rest) = Inr ((acc @ s1 @ [LF]) @ s2, rest)"
      by simp
    with rb notyet show ?thesis
      using s(1) by (subst readUntilCRLF_loop.simps) (simp add: Let_def del: length_append)
  qed
qed

lemma readUntilCRLF_terminated:
  "\<not> contains_CRLF s \<Longrightarrow> readUntilCRLF (s @ CRLF @ rest) = Inr (s, rest)"
  using readUntilCRLF_loop_terminated [of "[]" s rest] by (simp add: readUntilCRLF_def CRLF_def)

section \<open>Decoding what the reply encoders produce\<close>

lemma digits_no_CRLF: "0 \<le> n \<Longrightarrow> \<not> contains_CRLF (digits n)"
  using digits_all_digit is_digit_not_CR_LF by (intro no_LF_no_CRLF) blast

lemma decodeSimpleString_returnSimpleString:
  "\<not> contains_CRLF s \<Longrightarrow> DecodeRESP (Suc fuel) (returnSimpleString s @ rest) = Some (Ok (Value SimpleString s [], rest))"
  by (simp add: returnSimpleString_def decodeSimpleString_def readUntilCRLF_terminated)

lemma wrap64_id: "- (2 ^ 63) \<le> i \<Longrightarrow> i < 2 ^ 63 \<Longrightarrow> wrap64 i = i"
  by (simp add: wrap64_def)

lemma decodeBulkString_encoded:
  assumes "int (length s) + 2 < 2 ^ 63"
  shows "decodeBulkString (Itoa (int (length s)) @ CRLF @ s @ CRLF @ rest) = Ok (Value BulkString s [], rest)"
proof -
  let ?n = "int (length s)"
  have len: "readUntilCRLF (digits ?n @ CRLF @ s @ CRLF @ rest) = Inr (digits ?n, s @ CRLF @ rest)"
    by (rule readUntilCRLF_terminated) (simp add: digits_no_CRLF)
  have cnt: "Atoi (digits ?n) = Inr ?n"
    using assms by (intro Atoi_digits) auto
  have w: "wrap64 (?n + 2) = ?n + 2"
    using assms by (intro wrap64_id) auto
  have rd: "ReadFull (s @ CRLF @ rest) (?n + 2) = Inr (s @ CRLF, rest)"
    by (simp add: ReadFull_def CRLF_def nat_add_distrib)
  show ?thesis
    using len cnt w rd by (simp add: decodeBulkString_def Itoa_def)
qed

lemma DecodeRESP_returnBulkString:
  "int (length s) + 2 < 2 ^ 63 \<Longrightarrow>
   DecodeRESP (Suc fuel) (returnBulkString s @ rest) = Some (Ok (Value BulkString s [], rest))"
  using decodeBulkString_encoded [of s rest] by (simp add: returnBulkString_def)

lemma returnArray_concat:
  "foldl (\<lambda>s v. s @ f v) init a = init @ concat (map f a)"
  by (induction a arbitrary: init) auto

lemma decodeArray_loop_bulk_strings:
  "\<forall>s \<in> set a. int (length s) + 2 < 2 ^ 63 \<Longrightarrow>
   decodeArray_loop (Suc fuel) (length a) arr (concat (map returnBulkString a) @ rest) =
     Some (Ok (Value Array [] (arr @ map (\<lambda>s. Value BulkString s []) a), rest))"
proof (induction a arbitrary: arr)
  case Nil
  then show ?case by simp
next
  case (Cons s a)
  have "DecodeRESP (Suc fuel) (returnBulkString s @ concat (map returnBulkString a) @ rest)
        = Some (Ok (Value BulkString s [], concat (map returnBulkString a) @ rest))"
    using Cons.prems by (intro DecodeRESP_returnBulkString) simp
  then show ?case
    using Cons.IH [of "arr @ [Value BulkString s []]"] Cons.prems by simp
qed

lemma DecodeRESP_returnArray:
  assumes "\<forall>s \<in> set a. s \<noteq> [] \<and> int (length s) + 2 < 2 ^ 63" "int (length a) < 2 ^ 63"
  shows "DecodeRESP (Suc (Suc fuel)) (returnArray a @ rest) =
         Some (Ok (Value Array [] (map (\<lambda>s. Value BulkString s []) a), rest))"
proof -
  let ?n = "int (length a)"
  have enc: "returnArray a = ''*'' @ digits ?n @ CRLF @ concat (map returnBulkString a)"
  proof -
    have "map (\<lambda>v. if v = [] then returnNullBulkString else returnBulkString v) a = map returnBulkString a"
      using assms(1) by (intro map_cong) auto
    then have "concat (map (\<lambda>v. if v = [] then returnNullBulkString else returnBulkString v) a)
               = concat (map returnBulkString a)"
      by (rule arg_cong)
    then show ?thesis
      by (simp add: returnArray_def returnArray_concat Itoa_def del: map_eq_conv)
  qed
  have len: "readUntilCRLF (digits ?n @ CRLF @ concat (map returnBulkString a) @ rest)
             = Inr (digits ?n, concat (map returnBulkString a) @ rest)"
    by (rule readUntilCRLF_terminated) (simp add: digits_no_CRLF)
  have cnt: "Atoi (digits ?n) = Inr ?n"
    using assms(2) by (intro Atoi_digits) auto
  have "decodeArray_loop (Suc fuel) (length a) [] (concat (map returnBulkString a) @ rest) =
     Some (Ok (Value Array [] ([] @ map (\<lambda>s. Value BulkString s []) a), rest))"
    using assms(1) by (intro decodeArray_loop_bulk_strings) simp
  then show ?thesis
    using enc len cnt by simp
qed

lemma DecodeRESP_returnInteger:
  "DecodeRESP (Suc fuel) (returnInteger i @ rest) = Some (Error (InvalidDataTypeByte CHR '':''))"
  by (simp add: returnInteger_def)

lemma DecodeRESP_returnError:
  "DecodeRESP (Suc fuel) (returnError s @ rest) = Some (Error (InvalidDataTypeByte CHR ''-''))"
  by (simp add: returnError_def)

lemma DecodeRESP_returnNullBulkString:
  "DecodeRESP (Suc fuel) returnNullBulkString = Some (Error (FailedToReadContents EOF))"
  by (simp add: returnNullBulkString_def decodeBulkString_def readUntilCRLF_def readUntilCRLF_loop.simps CRLF_def Atoi_def is_digit_def digit_val_def wrap64_def ReadFull_def)

section \<open>Claims about the codec\<close>

text \<open>
  Claim C1, as the code has it. For every status text that holds no line terminator,
  every bulk string and every array of non-empty bulk strings (each of a length Go can
  represent), decoding the bytes of the reply encoder gives back the value and leaves
  exactly the bytes that followed it: \<open>returnSimpleString\<close>, \<open>returnBulkString\<close> and
  \<open>returnArray\<close> are inverted by \<open>DecodeRESP\<close>, with a nesting bound of one for the
  strings and of two for the array. The bytes of \<open>returnInteger\<close> are never decoded:
  the decoder knows the markers \<open>+\<close>, \<open>$\<close> and \<open>*\<close> only and answers the marker \<open>:\<close> with
  its invalid-data-type error.
\<close>

theorem reply_round_trip:
  "(\<not> contains_CRLF s \<longrightarrow>
      DecodeRESP (Suc fuel) (returnSimpleString s @ rest) = Some (Ok (Value SimpleString s [], rest)))
   \<and> (int (length b) + 2 < 2 ^ 63 \<longrightarrow>
      DecodeRESP (Suc fuel) (returnBulkString b @ rest) = Some (Ok (Value BulkString b [], rest)))
   \<and> ((\<forall>x \<in> set a. x \<noteq> [] \<and> int (length x) + 2 < 2 ^ 63) \<and> int (length a) < 2 ^ 63 \<longrightarrow>
      DecodeRESP (Suc (Suc fuel)) (returnArray a @ rest) =
        Some (Ok (Value Array [] (map (\<lambda>x. Value BulkString x []) a), rest)))
   \<and> DecodeRESP (Suc fuel) (returnInteger i @ rest) = Some (Error (InvalidDataTypeByte CHR '':''))"
proof (intro conjI impI)
  assume "\<not> contains_CRLF s"
  then show "DecodeRESP (Suc fuel) (returnSimpleString s @ rest) = Some (Ok (Value SimpleString s [], rest))"
    by (rule decodeSimpleString_returnSimpleString)
next
  assume "int (length b) + 2 < 2 ^ 63"
  then show "DecodeRESP (Suc fuel) (returnBulkString b @ rest) = Some (Ok (Value BulkString b [], rest))"
    by (rule DecodeRESP_returnBulkString)
next
  assume "(\<forall>x \<in> set a. x \<noteq> [] \<and> int (length x) + 2 < 2 ^ 63) \<and> int (length a) < 2 ^ 63"
  then show "DecodeRESP (Suc (Suc fuel)) (returnArray a @ rest) =
        Some (Ok (Value Array [] (map (\<lambda>x. Value BulkString x []) a), rest))"
    by (intro DecodeRESP_returnArray) auto
next
  show "DecodeRESP (Suc fuel) (returnInteger i @ rest) = Some (Error (InvalidDataTypeByte CHR '':''))"
    by (rule DecodeRESP_returnInteger)
qed

text \<open>
  The round trip at the status \<open>OK\<close>, the bulk string \<open>abcd\<close>, the request
  \<open>GET this\<close> and the integer 5, each followed by the bytes \<open>+x\<close>.
\<close>

theorem reply_round_trip_witness:
  "DecodeRESP (Suc 0) (returnSimpleString ''OK'' @ ''+x'') = Some (Ok (Value SimpleString ''OK'' [], ''+x''))
   \<and> DecodeRESP (Suc 0) (returnBulkString ''abcd'' @ ''+x'') = Some (Ok (Value BulkString ''abcd'' [], ''+x''))
   \<and> DecodeRESP (Suc (Suc 0)) (returnArray [''GET'', ''this''] @ ''+x'') =
        Some (Ok (Value Array [] [Value BulkString ''GET'' [], Value BulkString ''this'' []], ''+x''))
   \<and> DecodeRESP (Suc 0) (returnInteger 5 @ ''+x'') = Some (Error (InvalidDataTypeByte CHR '':''))"
  using reply_round_trip [where s = "''OK''" and b = "''abcd''" and a = "[''GET'', ''this'']"
      and i = 5 and fuel = 0 and rest = "''+x''"]
  by simp

text \<open>
  Claim C1 as stated fails: the encoded integer 5 decodes to an error, and so do the
  null bulk string and an array that holds an empty string (which \<open>returnArray\<close> writes
  as the null bulk string).
\<close>

theorem integer_reply_not_decodable:
  "DecodeRESP (Suc 0) (returnInteger 5) = Some (Error (InvalidDataTypeByte CHR '':''))
   \<and> DecodeRESP (Suc 0) returnNullBulkString = Some (Error (FailedToReadContents EOF))
   \<and> DecodeRESP (Suc (Suc 0)) (returnArray [[]]) = Some (Error (FailedToReadContents EOF))"
  by code_simp

text \<open>
  Claim C2 at its failing inputs. A bulk string whose declared length is \<open>-2\<close> makes
  \<open>decodeBulkString\<close> panic at the slice \<open>readBytes[:count]\<close>; the length \<open>-1\<close> does the
  same as soon as one more byte follows the header (at the end of the stream it is a
  read error); a length below \<open>-2\<close> panics in \<open>make\<close>. None of them is returned as an
  error.
\<close>

theorem decodeBulkString_negative_length_panics:
  "decodeBulkString (''-2'' @ CRLF) = Panic
   \<and> decodeBulkString (''-1'' @ CRLF @ ''*'') = Panic
   \<and> decodeBulkString (''-3'' @ CRLF) = Panic
   \<and> DecodeRESP (Suc 0) (''$-2'' @ CRLF) = Some Panic
   \<and> decodeBulkString (''-1'' @ CRLF) = Error (FailedToReadContents EOF)"
  by (simp add: decodeBulkString_def readUntilCRLF_def readUntilCRLF_loop.simps CRLF_def
      Atoi_def is_digit_def digit_val_def wrap64_def ReadFull_def)

section \<open>Reading a key\<close>

lemma checkAndRemoveExpiredKey_eq:
  "checkAndRemoveExpiredKey now db key =
     (if expired now db key then (True, purge db key) else (False, db))"
  by (simp add: checkAndRemoveExpiredKey_def expired_def After_def purge_def split: option.splits)

lemma Get_eq:
  "Get now db key =
     (case StringKeys db key of
        None \<Rightarrow> ([], db)
      | Some v \<Rightarrow> if expired now db key then ([], purge db key) else (v, db))"
  by (simp add: Get_def checkAndRemoveExpiredKey_eq split: option.splits)

lemma Get_present: "present now db key \<Longrightarrow> Get now db key = (the (StringKeys db key), db)"
  by (auto simp: Get_eq present_def split: option.splits)

lemma Get_not_present: "\<not> present now db key \<Longrightarrow> fst (Get now db key) = []"
  by (auto simp: Get_eq present_def split: option.splits)



lemma store_selected: "selected redis = Ok db \<Longrightarrow> store redis db = redis"
  by (auto simp: selected_def store_def split: if_splits)



section \<open>Claims about the keyspace engine\<close>

text \<open>
  Claim C8. For a key that has an expiry entry, \<open>Set\<close> stores the new value and
  leaves the expiry map as it was: the key keeps its expiry instant, and no other key's
  value or expiry changes.
\<close>

theorem Set_keeps_expiry:
  "ExpireKeys db key = Some expire \<Longrightarrow>
   ExpireKeys (Set db key v) key = Some expire
   \<and> StringKeys (Set db key v) key = Some v
   \<and> ExpireKeys (Set db key v) = ExpireKeys db
   \<and> (\<forall>other. other \<noteq> key \<longrightarrow> StringKeys (Set db key v) other = StringKeys db other)"
  by (simp add: Set_def)

text \<open>
  The key \<open>k\<close> set at instant 7 with a timeout of 1000 milliseconds, then overwritten
  by a plain \<open>Set\<close>.
\<close>

theorem Set_keeps_expiry_witness:
  "ExpireKeys (Setpx 7 (NewDatabase 0) ''k'' 1000 ''old'') ''k'' = Some 1000000007
   \<and> ExpireKeys (Set (Setpx 7 (NewDatabase 0) ''k'' 1000 ''old'') ''k'' ''new'') ''k'' = Some 1000000007
   \<and> StringKeys (Set (Setpx 7 (NewDatabase 0) ''k'' 1000 ''old'') ''k'' ''new'') ''k'' = Some ''new''
   \<and> StringKeys (Set (Setpx 7 (NewDatabase 0) ''k'' 1000 ''old'') ''k'' ''new'') ''j'' = None"
proof -
  have e: "ExpireKeys (Setpx 7 (NewDatabase 0) ''k'' 1000 ''old'') ''k'' = Some 1000000007"
    by (simp add: Setpx_def Set_def NewDatabase_def Millisecond_def wrap64_def)
  have "StringKeys (Setpx 7 (NewDatabase 0) ''k'' 1000 ''old'') ''j'' = None"
    by (simp add: Setpx_def Set_def NewDatabase_def)
  with e Set_keeps_expiry [OF e, of "''new''"] show ?thesis by simp
qed



text \<open>
  Claim C3, as the code has it. When the stored value is present (not empty, not
  expired) and \<open>strconv.Atoi\<close> rejects it, \<open>Incr\<close>, \<open>IncrBy\<close>, \<open>Decr\<close> and \<open>DecrBy\<close>
  return the integer 0 and leave the database as it was, and the INCR command replies
  \<open>:0\<close>; there is no separate error outcome.
\<close>

theorem counters_on_non_integer:
  assumes "StringKeys db key = Some v" "v \<noteq> []" "\<not> expired now db key" "Atoi v = Inl err"
  shows "Incr now db key = (0, db)
    \<and> IncrBy now db key n = (0, db)
    \<and> Decr now db key = (0, db)
    \<and> DecrBy now db key n = (0, db)
    \<and> (selected redis = Ok db \<longrightarrow> incrCommand now [key] redis = Ok ('':0'' @ CRLF, redis))"
proof -
  have g: "Get now db key = (v, db)" using assms by (simp add: Get_eq)
  have c: "checkAndRemoveExpiredKey now db key = (False, db)"
    using assms by (simp add: checkAndRemoveExpiredKey_eq)
  have i: "Incr now db key = (0, db)" using assms g c by (simp add: Incr_def)
  have z: "returnInteger 0 = '':0'' @ CRLF"
    by code_simp
  show ?thesis
    using assms g c i z
    by (auto simp: IncrBy_def Decr_def DecrBy_def incrCommand_def checkNumberOfArguments_def store_selected)
qed

text \<open>The key \<open>k\<close> holding \<open>abc\<close>, in database 0 of a fresh server.\<close>

theorem counters_on_non_integer_witness:
  "Incr 5 (Set (NewDatabase 0) ''k'' ''abc'') ''k'' = (0, Set (NewDatabase 0) ''k'' ''abc'')
   \<and> IncrBy 5 (Set (NewDatabase 0) ''k'' ''abc'') ''k'' 3 = (0, Set (NewDatabase 0) ''k'' ''abc'')
   \<and> Decr 5 (Set (NewDatabase 0) ''k'' ''abc'') ''k'' = (0, Set (NewDatabase 0) ''k'' ''abc'')
   \<and> DecrBy 5 (Set (NewDatabase 0) ''k'' ''abc'') ''k'' 3 = (0, Set (NewDatabase 0) ''k'' ''abc'')
   \<and> incrCommand 5 [''k''] (store Init (Set (NewDatabase 0) ''k'' ''abc''))
       = Ok ('':0'' @ CRLF, store Init (Set (NewDatabase 0) ''k'' ''abc''))"
proof -
  let ?db = "Set (NewDatabase 0) ''k'' ''abc''"
  have 1: "StringKeys ?db ''k'' = Some ''abc''" by (simp add: Set_def)
  have 2: "''abc'' \<noteq> []" by simp
  have 3: "\<not> expired 5 ?db ''k''" by (simp add: expired_def Set_def NewDatabase_def)
  have 4: "Atoi ''abc'' = Inl ErrSyntax" by (simp add: Atoi_def is_digit_def)
  have 5: "selected (store Init ?db) = Ok ?db"
    by (simp add: selected_def store_def Init_def)
  show ?thesis
    using counters_on_non_integer [OF 1 2 3 4, of 3 "store Init ?db"] 5 by simp
qed

text \<open>
  Claim C3 as stated fails: \<open>Incr\<close> on the value \<open>abc\<close>, which is not an integer,
  returns 0, and so does \<open>Incr\<close> on the value \<open>-1\<close>, where 0 is the computed result.
\<close>

theorem non_integer_outcome_is_a_computed_integer:
  "Atoi ''abc'' = Inl ErrSyntax
   \<and> Atoi ''-1'' = Inr (- 1)
   \<and> fst (Incr 5 (Set (NewDatabase 0) ''k'' ''abc'') ''k'') = 0
   \<and> fst (Incr 5 (Set (NewDatabase 0) ''k'' ''-1'') ''k'') = 0"
  by (simp add: Incr_def Get_def checkAndRemoveExpiredKey_def Set_def NewDatabase_def Atoi_def
      is_digit_def digit_val_def wrap64_def)

section \<open>Lazy expiration over several reads\<close>
















section \<open>An empty value\<close>






section \<open>Claims about the command handlers\<close>

text \<open>
  Claim C5 at its failing input. ECHO takes one argument; called with none,
  \<open>echoCommand\<close> panics at \<open>args[0]\<close>. Its sibling \<open>getCommand\<close>, like every other handler
  with a minimum arity, checks the number of arguments first and replies with the
  wrong-number-of-arguments error, leaving the server as it is.
\<close>

theorem echoCommand_without_arguments_panics:
  "echoCommand [] = Panic
   \<and> getCommand now [] redis = Ok (returnWrongNumberOfArgumentsError ''GET'', redis)"
  by (simp add: echoCommand_def getCommand_def checkNumberOfArguments_def)

section \<open>Claims about snapshots\<close>

lemma Load_Image:
  "os_Open fs (if fileName = [] then dump_name db else fileName) = Inr (Image strings expires) \<Longrightarrow>
   Load fs db fileName =
     db\<lparr>StringKeys := StringKeys db ++ strings, ExpireKeys := ExpireKeys db ++ expires\<rparr>"
  by (simp add: Load_def gob_Decode_def Let_def)

lemma Save_empty_disk:
  "Save empty_disk db = empty_disk\<lparr>files := [dump_name db \<mapsto> Image (StringKeys db) (ExpireKeys db)]\<rparr>"
  by (simp add: Save_def os_Create_def gob_Encode_def empty_disk_def)

lemma Save_then_Open:
  "os_Open (Save empty_disk db) (dump_name db) = Inr (Image (StringKeys db) (ExpireKeys db))"
  unfolding Save_empty_disk by (simp add: os_Open_def empty_disk_def)

lemma dump_name_Set: "dump_name (Set db key v) = dump_name db"
  by (simp add: dump_name_def Set_def)

lemma dump_name_0: "dump_name (NewDatabase 0) = ''database_0_dump.db''"
  by code_simp

text \<open>
  Claim C4, as the code has it. When the snapshot file opens and holds an image,
  \<open>Load\<close> lays the image over the prior state, each map on its own. The value map
  after \<open>Load\<close> is the prior value map overridden by the snapshot's value map: a key
  of the snapshot's value map gets the snapshot's value, a key outside it keeps its prior
  value. The expiry map after \<open>Load\<close> is the prior expiry map overridden by the
  snapshot's expiry map: a key of the snapshot's expiry map gets the snapshot's expiry, a
  key outside it keeps its prior expiry entry, if it had one. When both prior maps are
  empty, as they are at startup, the result is the snapshot's two maps.
\<close>

theorem Load_merges_snapshot:
  assumes "os_Open fs (if fileName = [] then dump_name db else fileName) = Inr (Image strings expires)"
  shows "StringKeys (Load fs db fileName) = StringKeys db ++ strings
    \<and> ExpireKeys (Load fs db fileName) = ExpireKeys db ++ expires
    \<and> id' (Load fs db fileName) = id' db
    \<and> (\<forall>key. key \<in> dom strings \<longrightarrow> StringKeys (Load fs db fileName) key = strings key)
    \<and> (\<forall>key. key \<notin> dom strings \<longrightarrow> StringKeys (Load fs db fileName) key = StringKeys db key)
    \<and> (\<forall>key. key \<in> dom expires \<longrightarrow> ExpireKeys (Load fs db fileName) key = expires key)
    \<and> (\<forall>key. key \<notin> dom expires \<longrightarrow> ExpireKeys (Load fs db fileName) key = ExpireKeys db key)
    \<and> (StringKeys db = Map.empty \<and> ExpireKeys db = Map.empty \<longrightarrow>
          StringKeys (Load fs db fileName) = strings \<and> ExpireKeys (Load fs db fileName) = expires)"
  unfolding Load_Image [OF assms] by (auto simp: map_add_def split: option.splits)

text \<open>
  A snapshot that holds \<open>a\<close>, loaded into a database that holds \<open>b\<close>, and into an
  empty database.
\<close>

theorem Load_merges_snapshot_witness:
  "StringKeys (Load (Save empty_disk (Set (NewDatabase 0) ''a'' ''1'')) (Set (NewDatabase 0) ''b'' ''2'') []) ''a'' = Some ''1''
   \<and> StringKeys (Load (Save empty_disk (Set (NewDatabase 0) ''a'' ''1'')) (Set (NewDatabase 0) ''b'' ''2'') []) ''b'' = Some ''2''
   \<and> StringKeys (Load (Save empty_disk (Set (NewDatabase 0) ''a'' ''1'')) (NewDatabase 0) []) = [''a'' \<mapsto> ''1'']"
proof -
  let ?dba = "Set (NewDatabase 0) ''a'' ''1''"
  let ?dbb = "Set (NewDatabase 0) ''b'' ''2''"
  let ?fs = "Save empty_disk ?dba"
  have sa: "StringKeys ?dba = [''a'' \<mapsto> ''1'']" "ExpireKeys ?dba = Map.empty"
    by (simp_all add: Set_def NewDatabase_def)
  have ob: "os_Open ?fs (if [] = [] then dump_name ?dbb else []) = Inr (Image [''a'' \<mapsto> ''1''] Map.empty)"
    using Save_then_Open [of ?dba] by (simp add: dump_name_Set sa)
  have o0: "os_Open ?fs (if [] = [] then dump_name (NewDatabase 0) else []) = Inr (Image [''a'' \<mapsto> ''1''] Map.empty)"
    using Save_then_Open [of ?dba] by (simp add: dump_name_Set sa)
  have sb: "StringKeys ?dbb = [''b'' \<mapsto> ''2'']" by (simp add: Set_def NewDatabase_def)
  have e0: "StringKeys (NewDatabase 0) = Map.empty \<and> ExpireKeys (NewDatabase 0) = Map.empty"
    by (simp add: NewDatabase_def)
  from Load_merges_snapshot [OF ob] have "StringKeys (Load ?fs ?dbb []) = StringKeys ?dbb ++ [''a'' \<mapsto> ''1'']"
    by blast
  then have 1: "StringKeys (Load ?fs ?dbb []) ''a'' = Some ''1''" "StringKeys (Load ?fs ?dbb []) ''b'' = Some ''2''"
    by (simp_all add: sb)
  from Load_merges_snapshot [OF o0] e0 have 2: "StringKeys (Load ?fs (NewDatabase 0) []) = [''a'' \<mapsto> ''1'']"
    by blast
  from 1 2 show ?thesis by blast
qed

text \<open>
  Claim C4 as stated fails: the snapshot of database 0 holds the key \<open>a\<close> only, and the
  key \<open>b\<close> of the prior state is still there after \<open>Load\<close>.
\<close>

theorem Load_keeps_keys_absent_from_snapshot:
  "files (Save empty_disk (Set (NewDatabase 0) ''a'' ''1'')) ''database_0_dump.db''
     = Some (Image [''a'' \<mapsto> ''1''] Map.empty)
   \<and> StringKeys (Load (Save empty_disk (Set (NewDatabase 0) ''a'' ''1'')) (Set (NewDatabase 0) ''b'' ''2'') []) ''b''
     = Some ''2''"
proof -
  let ?dba = "Set (NewDatabase 0) ''a'' ''1''"
  let ?dbb = "Set (NewDatabase 0) ''b'' ''2''"
  let ?fs = "Save empty_disk ?dba"
  have sa: "StringKeys ?dba = [''a'' \<mapsto> ''1'']" "ExpireKeys ?dba = Map.empty"
    by (simp_all add: Set_def NewDatabase_def)
  have f: "files ?fs ''database_0_dump.db'' = Some (Image [''a'' \<mapsto> ''1''] Map.empty)"
    by (simp add: Save_empty_disk dump_name_Set dump_name_0 sa)
  have ob: "os_Open ?fs (if [] = [] then dump_name ?dbb else []) = Inr (Image [''a'' \<mapsto> ''1''] Map.empty)"
    using Save_then_Open [of ?dba] by (simp add: dump_name_Set sa)
  have sb: "StringKeys ?dbb = [''b'' \<mapsto> ''2'']" by (simp add: Set_def NewDatabase_def)
  have "StringKeys (Load ?fs ?dbb []) ''b'' = Some ''2''"
    unfolding Load_Image [OF ob] by (simp add: sb)
  with f show ?thesis by blast
qed

text \<open>
  Claim C9. SAVE always replies \<open>+OK\<close> and never changes a database, whatever happens
  to the file; when the file cannot be created \<open>Save\<close> leaves the file system as it is.
  LOAD with a file name replies \<open>+OK\<close> and leaves every database as it was when the file
  cannot be opened and when the decoder rejects what it reads.
\<close>

theorem persistence_failure_keeps_state:
  "(selected redis = Ok db \<longrightarrow>
      (\<exists>fs'. saveCommand args fs redis = Ok (returnSimpleString ''OK'', fs', redis)))
   \<and> (os_Create fs (dump_name db) = Inl err \<longrightarrow> Save fs db = fs)
   \<and> (selected redis = Ok db
        \<and> os_Open fs (if fileName = [] then dump_name db else fileName) = Inl err \<longrightarrow>
      Load fs db fileName = db
      \<and> loadCommand (fileName # args) fs redis = Ok (returnSimpleString ''OK'', redis))
   \<and> (selected redis = Ok db
        \<and> os_Open fs (if fileName = [] then dump_name db else fileName) = Inr Garbage \<longrightarrow>
      Load fs db fileName = db
      \<and> loadCommand (fileName # args) fs redis = Ok (returnSimpleString ''OK'', redis))"
  by (auto simp: saveCommand_def loadCommand_def Save_def Load_def gob_Decode_def Let_def
      checkNumberOfArguments_def store_selected)

text \<open>
  A fresh server: SAVE on a file system that refuses every name, LOAD of a file that
  does not exist, and LOAD of a file the decoder rejects.
\<close>

theorem persistence_failure_keeps_state_witness:
  "(\<exists>fs'. saveCommand [] (empty_disk\<lparr>denied := (\<lambda>name. True)\<rparr>) Init = Ok (returnSimpleString ''OK'', fs', Init))
   \<and> Save (empty_disk\<lparr>denied := (\<lambda>name. True)\<rparr>) (NewDatabase 0) = empty_disk\<lparr>denied := (\<lambda>name. True)\<rparr>
   \<and> loadCommand [''dump.db''] empty_disk Init = Ok (returnSimpleString ''OK'', Init)
   \<and> loadCommand [''dump.db''] (empty_disk\<lparr>files := [''dump.db'' \<mapsto> Garbage]\<rparr>) Init
       = Ok (returnSimpleString ''OK'', Init)"
proof -
  let ?locked = "empty_disk\<lparr>denied := (\<lambda>name. True)\<rparr>"
  let ?broken = "empty_disk\<lparr>files := [''dump.db'' \<mapsto> Garbage]\<rparr>"
  have s: "selected Init = Ok (NewDatabase 0)" by (simp add: selected_def Init_def upt_rec)
  have c: "os_Create ?locked (dump_name (NewDatabase 0)) = Inl ErrPermission"
    by (simp add: os_Create_def)
  have o1: "os_Open empty_disk (if ''dump.db'' = [] then dump_name (NewDatabase 0) else ''dump.db'') = Inl ErrNotExist"
    by (simp add: os_Open_def empty_disk_def)
  have o2: "os_Open ?broken (if ''dump.db'' = [] then dump_name (NewDatabase 0) else ''dump.db'') = Inr Garbage"
    by (simp add: os_Open_def empty_disk_def)
  show ?thesis
    using persistence_failure_keeps_state [of Init "NewDatabase 0" "[]" ?locked ErrPermission "''dump.db''"] s c
      persistence_failure_keeps_state [of Init "NewDatabase 0" "[]" empty_disk ErrNotExist "''dump.db''"] o1
      persistence_failure_keeps_state [of Init "NewDatabase 0" "[]" ?broken ErrNotExist "''dump.db''"] o2
    by simp
qed

end
